theory Spec2Isabelle
  imports Main
begin

section \<open>The build configuration of nested-dependencies-in-frontend\<close>

text \<open>
  The repository holds a tutorial text and one program, \<^verbatim>\<open>rollup.config.js\<close>:
  \<^verbatim>\<open>
  import indexHTML from "rollup-plugin-index-html";

  export default config => ({
    input: "./index.html",
    output: {
      dir: "dist",
      format: "esm"
    },
    plugins: [indexHTML({ ...config, rootDir: __dirname })]
  });
  \<close>
  The exported function is embedded below. Two names of the module are not bound by
  the file itself and are taken as parameters: the plugin factory \<open>indexHTML\<close>
  (imported from a package outside the repository) and \<open>__dirname\<close> (supplied by the
  module loader).

  The resolution of module specifiers against an import map, which the tutorial
  describes, is carried out by the browser and by the imported plugin. No file of the
  repository implements it, so no resolver is embedded here.
\<close>

subsection \<open>Objects\<close>

text \<open>
  A JavaScript object is represented by the list of its own enumerable string-keyed
  properties, in property order. The function never inspects a property value, so the
  type of values is a parameter \<open>'v\<close>; the value of \<open>__dirname\<close> is one of them.
\<close>

type_synonym 'v js_object = "(string \<times> 'v) list"

text \<open>
  Writing a data property: an existing key keeps its place and takes the new value, a
  new key is appended after the existing ones.
\<close>

fun define_property :: "string \<Rightarrow> 'v \<Rightarrow> 'v js_object \<Rightarrow> 'v js_object" where
  "define_property k v [] = [(k, v)]"
| "define_property k v ((k', v') # ps) =
     (if k' = k then (k, v) # ps else (k', v') # define_property k v ps)"

subsection \<open>The exported configuration function\<close>

record output_options =
  dir :: string
  format :: string

text \<open>
  The field \<^verbatim>\<open>output\<close> of the returned object is named \<open>output'\<close> here, since
  \<open>output\<close> is reserved in theory text.
\<close>

record 'p rollup_options =
  input :: string
  output' :: output_options
  plugins :: "'p list"

text \<open>
  The object literal \<^verbatim>\<open>{ ...config, rootDir: __dirname }\<close>: the spread copies the
  properties of \<open>config\<close> into a fresh object in their order, then \<open>rootDir\<close> is
  written on that copy.
\<close>

definition plugin_options :: "'v \<Rightarrow> 'v js_object \<Rightarrow> 'v js_object" where
  "plugin_options dirname config = define_property ''rootDir'' dirname config"

definition rollup_config ::
  "('v js_object \<Rightarrow> 'p) \<Rightarrow> 'v \<Rightarrow> 'v js_object \<Rightarrow> 'p rollup_options" where
  "rollup_config indexHTML dirname config =
     \<lparr> input = ''./index.html'',
       output' = \<lparr> dir = ''dist'', format = ''esm'' \<rparr>,
       plugins = [indexHTML (plugin_options dirname config)] \<rparr>"

section \<open>Properties of writing a property\<close>

lemma map_of_define_property:
  "map_of (define_property k v ps) = (map_of ps)(k \<mapsto> v)"
  by (induction k v ps rule: define_property.induct) (auto simp: fun_eq_iff)

lemma keys_define_property:
  "fst ` set (define_property k v ps) = insert k (fst ` set ps)"
  by (induction k v ps rule: define_property.induct) auto

lemma key_order_define_property:
  "map fst (define_property k v ps) =
     (if k \<in> fst ` set ps then map fst ps else map fst ps @ [k])"
  by (induction k v ps rule: define_property.induct) (auto simp: image_iff)

text \<open>An object has no key twice; writing a property keeps it so.\<close>

lemma distinct_define_property:
  "distinct (map fst ps) \<Longrightarrow> distinct (map fst (define_property k v ps))"
  by (simp add: key_order_define_property)

text \<open>The properties under other keys stay as they are, in value and in order.\<close>

lemma other_properties_define_property:
  "filter (\<lambda>p. fst p \<noteq> k) (define_property k v ps) = filter (\<lambda>p. fst p \<noteq> k) ps"
  by (induction k v ps rule: define_property.induct) auto

text \<open>Writing a property gives back the same object only if it was there already.\<close>

lemma define_property_unchanged_iff:
  "(define_property k v ps = ps) = (map_of ps k = Some v)"
  by (induction k v ps rule: define_property.induct) auto

section \<open>The returned configuration\<close>

text \<open>
  C8. For every options object \<open>config\<close> (and whatever the plugin factory and
  \<open>__dirname\<close> are), the returned object has \<open>input\<close> equal to \<open>"./index.html"\<close>,
  \<open>output.dir\<close> equal to \<open>"dist"\<close> and \<open>output.format\<close> equal to \<open>"esm"\<close>: the three
  fields are constants of the function and do not depend on \<open>config\<close>.
\<close>

theorem rollup_config_fixed_fields:
  "input (rollup_config indexHTML dirname config) = ''./index.html''
   \<and> dir (output' (rollup_config indexHTML dirname config)) = ''dist''
   \<and> format (output' (rollup_config indexHTML dirname config)) = ''esm''"
  by (simp add: rollup_config_def)

section \<open>The options handed to the plugin\<close>

text \<open>
  C9 as stated says that the object passed to \<open>indexHTML\<close> equals \<open>config\<close>, with no
  field added, removed or changed. The code does not do that. With the identity as
  plugin factory (so that \<open>plugins\<close> shows the argument of the call) and \<open>__dirname\<close>
  equal to \<open>"/project"\<close>: for the empty options object the plugin receives an object
  with the added field \<open>rootDir\<close>, and for the options object
  \<open>{rootDir: "/elsewhere"}\<close> it receives one whose \<open>rootDir\<close> has been changed.
\<close>

theorem rollup_config_not_verbatim_counterexample:
  "plugins (rollup_config id ''/project'' ([] :: string js_object)) \<noteq> [id []]
   \<and> plugins (rollup_config id ''/project'' [(''rootDir'', ''/elsewhere'')])
       \<noteq> [id [(''rootDir'', ''/elsewhere'')]]"
  by (simp add: rollup_config_def plugin_options_def)

text \<open>
  C9, amended. The configuration function calls \<open>indexHTML\<close> once, on a copy of
  \<open>config\<close> on which \<open>rootDir\<close> is set to \<open>__dirname\<close>: in the object passed,
  \<open>rootDir\<close> has the value \<open>__dirname\<close>; the properties of \<open>config\<close> under every key
  other than \<open>rootDir\<close> are forwarded unchanged and in their order, none is removed, the
  only key that can be added is \<open>rootDir\<close>, and the object passed equals \<open>config\<close>
  exactly when \<open>config\<close> already has \<open>rootDir\<close> equal to \<open>__dirname\<close>.
\<close>

theorem rollup_config_forwards_all_but_rootDir:
  "plugins (rollup_config indexHTML dirname config)
     = [indexHTML (plugin_options dirname config)]
   \<and> map_of (plugin_options dirname config) ''rootDir'' = Some dirname
   \<and> filter (\<lambda>p. fst p \<noteq> ''rootDir'') (plugin_options dirname config)
       = filter (\<lambda>p. fst p \<noteq> ''rootDir'') config
   \<and> fst ` set (plugin_options dirname config) = insert ''rootDir'' (fst ` set config)
   \<and> (plugin_options dirname config = config) = (map_of config ''rootDir'' = Some dirname)"
  by (simp add: rollup_config_def plugin_options_def map_of_define_property
      other_properties_define_property keys_define_property define_property_unchanged_iff)

text \<open>
  C10. For every options object \<open>config\<close>, the object that the configuration function
  passes to \<open>indexHTML\<close> has its \<open>rootDir\<close> field equal to \<open>__dirname\<close>, whatever
  \<open>rootDir\<close> the caller supplied in \<open>config\<close>, and every field of \<open>config\<close> other than
  \<open>rootDir\<close> is passed through unchanged.
\<close>

theorem rollup_config_rootDir_set:
  "plugins (rollup_config indexHTML dirname config)
     = [indexHTML (plugin_options dirname config)]
   \<and> map_of (plugin_options dirname config) ''rootDir'' = Some dirname
   \<and> (\<forall>k. k \<noteq> ''rootDir'' \<longrightarrow>
          map_of (plugin_options dirname config) k = map_of config k)"
  by (simp add: rollup_config_def plugin_options_def map_of_define_property)

text \<open>
  The theorem at the options object \<open>{rootDir: "/elsewhere", open: "true"}\<close> with
  \<open>__dirname\<close> equal to \<open>"/project"\<close>: the caller's \<open>rootDir\<close> is overridden and \<open>open\<close>
  is kept.
\<close>

theorem rollup_config_rootDir_set_witness:
  "plugins (rollup_config id ''/project'' [(''rootDir'', ''/elsewhere''), (''open'', ''true'')])
     = [[(''rootDir'', ''/project''), (''open'', ''true'')]]
   \<and> map_of (plugin_options ''/project'' [(''rootDir'', ''/elsewhere''), (''open'', ''true'')])
         ''rootDir'' = Some ''/project''
   \<and> map_of (plugin_options ''/project'' [(''rootDir'', ''/elsewhere''), (''open'', ''true'')])
         ''open'' = Some ''true''"
  using rollup_config_rootDir_set
    [of id "''/project''" "[(''rootDir'', ''/elsewhere''), (''open'', ''true'')]"]
  by (simp add: plugin_options_def)

end
